theory Spec2Isabelle
  imports Main "HOL-Library.Finite_Map"
begin

section \<open>Machine integers\<close>

text \<open>
  Go's \<^verbatim>\<open>int\<close> is a 64-bit two's complement integer on the platforms the program
  targets. Values are modelled as \<^typ>\<open>int\<close>; where the source adds or subtracts,
  the result is wrapped by \<open>int64\<close>.
\<close>

definition is_int64 :: "int \<Rightarrow> bool" where
  "is_int64 x = (- (2 ^ 63) \<le> x \<and> x < 2 ^ 63)"

definition int64 :: "int \<Rightarrow> int" where
  "int64 x = (x + 2 ^ 63) mod 2 ^ 64 - 2 ^ 63"

section \<open>Style model, cells and geometry\<close>

text \<open>
  \<^verbatim>\<open>type Color int\<close>, \<^verbatim>\<open>type Modifier uint\<close> and
  \<^verbatim>\<open>type Style struct { Fg, Bg Color; Modifier Modifier }\<close>.
  A rune is a Unicode code point.
\<close>

type_synonym rune = nat
type_synonym Color = int

definition ColorClear :: Color where "ColorClear = - 1"
definition ColorBlack :: Color where "ColorBlack = 0"
definition ColorRed :: Color where "ColorRed = 1"
definition ColorGreen :: Color where "ColorGreen = 2"
definition ColorYellow :: Color where "ColorYellow = 3"
definition ColorBlue :: Color where "ColorBlue = 4"
definition ColorMagenta :: Color where "ColorMagenta = 5"
definition ColorCyan :: Color where "ColorCyan = 6"
definition ColorWhite :: Color where "ColorWhite = 7"

definition ModifierClear :: nat where "ModifierClear = 0"
definition ModifierBold :: nat where "ModifierBold = 2 ^ 9"
definition ModifierUnderline :: nat where "ModifierUnderline = 2 ^ 10"
definition ModifierReverse :: nat where "ModifierReverse = 2 ^ 11"

record Style =
  Fg :: Color
  Bg :: Color
  Modifier :: nat

definition StyleClear :: Style where
  "StyleClear = \<lparr>Fg = ColorClear, Bg = ColorClear, Modifier = ModifierClear\<rparr>"

record Cell =
  Rune :: rune
  Style :: Style

text \<open>\<^verbatim>\<open>CellClear\<close>: a blank with the clear style (the rune is the space, U+0020).\<close>

definition CellClear :: Cell where
  "CellClear = \<lparr>Rune = 32, Style = StyleClear\<rparr>"

text \<open>\<^verbatim>\<open>image.Point\<close> and \<^verbatim>\<open>image.Rectangle\<close> of Go's standard library.\<close>

record Point =
  X :: int
  Y :: int

record Rectangle =
  Min_pt :: Point
  Max_pt :: Point

definition Pt :: "int \<Rightarrow> int \<Rightarrow> Point" where
  "Pt x y = \<lparr>X = x, Y = y\<rparr>"

text \<open>\<^verbatim>\<open>p.In(r)\<close>: the rectangle contains its minimum and excludes its maximum.\<close>

definition Point_In :: "Point \<Rightarrow> Rectangle \<Rightarrow> bool" where
  "Point_In p r =
     (X (Min_pt r) \<le> X p \<and> X p < X (Max_pt r) \<and> Y (Min_pt r) \<le> Y p \<and> Y p < Y (Max_pt r))"

section \<open>Buffer\<close>

text \<open>
  \<^verbatim>\<open>type Buffer struct { image.Rectangle; CellMap map[image.Point]Cell }\<close>.
  A Go map is a finite map; ranging over it visits every key once, in an order the
  language leaves open.
\<close>

record Buffer =
  Rectangle :: Rectangle
  CellMap :: "(Point, Cell) fmap"

definition SetCell :: "Buffer \<Rightarrow> Cell \<Rightarrow> Point \<Rightarrow> Buffer" where
  "SetCell buf c p = buf\<lparr>CellMap := fmupd p c (CellMap buf)\<rparr>"

text \<open>
  \<^verbatim>\<open>Fill\<close>: the outer loop runs over the columns \<open>rect.Min.X \<le> x < rect.Max.X\<close>, the
  inner one over the rows \<open>rect.Min.Y \<le> y < rect.Max.Y\<close>.
\<close>

definition Fill :: "Buffer \<Rightarrow> Cell \<Rightarrow> Rectangle \<Rightarrow> Buffer" where
  "Fill buf c rect =
     fold (\<lambda>x b. fold (\<lambda>y b'. SetCell b' c (Pt x y)) [Y (Min_pt rect) .. Y (Max_pt rect) - 1] b)
       [X (Min_pt rect) .. X (Max_pt rect) - 1] buf"

definition NewBuffer :: "Rectangle \<Rightarrow> Buffer" where
  "NewBuffer r = Fill \<lparr>Rectangle = r, CellMap = fmempty\<rparr> CellClear r"

section \<open>FrameBuffer diff engine\<close>

text \<open>
  \<^verbatim>\<open>type FrameBuffer struct { CellMap map[image.Point]Cell; Bounds image.Rectangle; mu sync.RWMutex }\<close>.
  The methods take the lock on entry and release it on return; a single caller is
  modelled, so the lock has no effect on the state and is left out of the record.
\<close>

record FrameBuffer =
  fb_CellMap :: "(Point, Cell) fmap"
  Bounds :: Rectangle

definition NewFrameBuffer :: "Rectangle \<Rightarrow> FrameBuffer" where
  "NewFrameBuffer bounds = \<lparr>fb_CellMap = fmempty, Bounds = bounds\<rparr>"

text \<open>
  \<^verbatim>\<open>Resize\<close> ranges over the cached points and deletes each one for which
  \<^verbatim>\<open>!p.In(bounds)\<close>; the keys that stay are those that are not deleted.
\<close>

definition Resize :: "FrameBuffer \<Rightarrow> Rectangle \<Rightarrow> FrameBuffer" where
  "Resize fb bounds =
     \<lparr>fb_CellMap = fmfilter (\<lambda>p. \<not> (\<not> Point_In p bounds)) (fb_CellMap fb), Bounds = bounds\<rparr>"

definition cellsEqual :: "Cell \<Rightarrow> Cell \<Rightarrow> bool" where
  "cellsEqual a b =
     (Rune a = Rune b \<and> Fg (Style a) = Fg (Style b) \<and> Bg (Style a) = Bg (Style b) \<and>
      Modifier (Style a) = Modifier (Style b))"

text \<open>
  \<^verbatim>\<open>Diff\<close>. The first loop skips the buffer's entries outside its rectangle, marks
  the others in \<open>currentCells\<close> and puts into \<open>changed\<close> those whose cached cell is
  absent or different. The second loop appends to \<open>removed\<close> every cached point that is
  not marked and lies in the rectangle. The order of \<open>removed\<close> is the map's iteration
  order, which is unspecified; each key occurs once, so the slice is modelled as a finite
  set.
\<close>

definition Diff :: "FrameBuffer \<Rightarrow> Buffer \<Rightarrow> (Point, Cell) fmap \<times> Point fset" where
  "Diff fb current =
     (let visited = fmfilter (\<lambda>p. Point_In p (Rectangle current)) (CellMap current);
          currentCells = fmdom visited;
          changed =
            fmfilter
              (\<lambda>p. case fmlookup (fb_CellMap fb) p of
                     None \<Rightarrow> True
                   | Some oldCell \<Rightarrow>
                       (case fmlookup visited p of
                          None \<Rightarrow> False
                        | Some newCell \<Rightarrow> \<not> cellsEqual oldCell newCell))
              visited;
          removed =
            ffilter (\<lambda>p. p |\<notin>| currentCells \<and> Point_In p (Rectangle current))
              (fmdom (fb_CellMap fb))
      in (changed, removed))"

text \<open>
  \<^verbatim>\<open>Update\<close>. The first loop stores every cell of the buffer that lies in the
  buffer's rectangle. The second loop ranges over the cache and deletes each point with
  \<^verbatim>\<open>!p.In(buf.Rectangle) && p.In(fb.Bounds)\<close>.
\<close>

definition Update :: "FrameBuffer \<Rightarrow> Buffer \<Rightarrow> FrameBuffer" where
  "Update fb buf =
     (let merged =
            fmadd (fb_CellMap fb) (fmfilter (\<lambda>p. Point_In p (Rectangle buf)) (CellMap buf))
      in fb\<lparr>fb_CellMap :=
              fmfilter (\<lambda>p. \<not> (\<not> Point_In p (Rectangle buf) \<and> Point_In p (Bounds fb))) merged\<rparr>)"

section \<open>Scrolling of List and Tree\<close>

text \<open>
  Of the \<^verbatim>\<open>List\<close> widget the fields that scrolling reads or writes are kept: the rows,
  the selected row and the top visible row. Each row is the string as its runes.
\<close>

record List_widget =
  Rows :: "rune list list"
  SelectedRow :: int
  topRow :: int

definition List_ScrollAmount :: "List_widget \<Rightarrow> int \<Rightarrow> List_widget" where
  "List_ScrollAmount l amount =
     (if int64 (int (length (Rows l)) - SelectedRow l) \<le> amount
      then l\<lparr>SelectedRow := int64 (int (length (Rows l)) - 1)\<rparr>
      else if int64 (SelectedRow l + amount) < 0
      then l\<lparr>SelectedRow := 0\<rparr>
      else l\<lparr>SelectedRow := int64 (SelectedRow l + amount)\<rparr>)"

text \<open>
  A tree node owns its children; \<^verbatim>\<open>Value\<close> is the node's text. The \<^verbatim>\<open>Tree\<close>
  widget keeps the root nodes and the rows flattened from them.
\<close>

datatype TreeNode =
  TreeNode (Value: "rune list") (Expanded: bool) (Nodes: "TreeNode list") (level: int)

record Tree_widget =
  tree_SelectedRow :: int
  nodes :: "TreeNode list"
  rows :: "TreeNode list"
  tree_topRow :: int

text \<open>
  \<^verbatim>\<open>prepareNode\<close> appends the node, records its level and, when the node is expanded,
  descends into its children in order; \<^verbatim>\<open>prepareNodes\<close> starts from the empty row list.
\<close>

fun prepareNode :: "TreeNode \<Rightarrow> int \<Rightarrow> TreeNode list" where
  "prepareNode (TreeNode v e ns l) lvl =
     TreeNode v e ns lvl # (if e then concat (map (\<lambda>n. prepareNode n (int64 (lvl + 1))) ns) else [])"

definition prepareNodes :: "Tree_widget \<Rightarrow> Tree_widget" where
  "prepareNodes t = t\<lparr>rows := concat (map (\<lambda>n. prepareNode n 0) (nodes t))\<rparr>"

definition Tree_ScrollAmount :: "Tree_widget \<Rightarrow> int \<Rightarrow> Tree_widget" where
  "Tree_ScrollAmount t amount =
     (if int64 (int (length (rows t)) - tree_SelectedRow t) \<le> amount
      then t\<lparr>tree_SelectedRow := int64 (int (length (rows t)) - 1)\<rparr>
      else if int64 (tree_SelectedRow t + amount) < 0
      then t\<lparr>tree_SelectedRow := 0\<rparr>
      else t\<lparr>tree_SelectedRow := int64 (tree_SelectedRow t + amount)\<rparr>)"

section \<open>Strings\<close>

text \<open>
  A Go string is read by the parsers through \<^verbatim>\<open>[]rune(s)\<close>, so a string is modelled as
  the list of its runes; \<open>runes\<close> writes an ASCII literal as such a list. Runes obtained
  from a string are valid code points, so \<^verbatim>\<open>string(rs)\<close> followed by a split at an
  ASCII separator gives the pieces that splitting the rune list gives.
\<close>

definition runes :: "string \<Rightarrow> rune list" where
  "runes s = map of_char s"

text \<open>
  \<^verbatim>\<open>strings.Split(s, sep)\<close> for a separator of one rune: the pieces between the
  separators, in order; a string without separator is the only piece, also when empty.
  The result is never the empty list, so the first case of the inner distinction is not
  reached.
\<close>

fun Split :: "rune list \<Rightarrow> rune \<Rightarrow> rune list list" where
  "Split [] sep = [[]]"
| "Split (c # cs) sep =
     (if c = sep then [] # Split cs sep
      else (case Split cs sep of
              [] \<Rightarrow> [[c]]
            | w # ws \<Rightarrow> (c # w) # ws))"

text \<open>
  \<^verbatim>\<open>unicode.IsSpace\<close>: the code points with the Unicode property White_Space.
\<close>

definition IsSpace :: "rune \<Rightarrow> bool" where
  "IsSpace r =
     ((9 \<le> r \<and> r \<le> 13) \<or> r = 32 \<or> r = 133 \<or> r = 160 \<or> r = 5760 \<or>
      (8192 \<le> r \<and> r \<le> 8202) \<or> r = 8232 \<or> r = 8233 \<or> r = 8239 \<or> r = 8287 \<or>
      r = 12288)"

definition TrimSpace :: "rune list \<Rightarrow> rune list" where
  "TrimSpace s = rev (dropWhile IsSpace (rev (dropWhile IsSpace s)))"

text \<open>
  \<^verbatim>\<open>strings.ToLower\<close> maps every rune by \<^verbatim>\<open>unicode.ToLower\<close>. The model has the
  ASCII letters and the two runes outside ASCII whose lower case is an ASCII letter
  (U+0130 to \<open>i\<close>, U+212A to \<open>k\<close>). Every other rune outside ASCII has a lower case
  outside ASCII and is left as it is: the lowered string is only looked up in tables
  whose keys are ASCII, and the lookup's result is the same.
\<close>

definition ToLower_rune :: "rune \<Rightarrow> rune" where
  "ToLower_rune r =
     (if 65 \<le> r \<and> r \<le> 90 then r + 32
      else if r = 304 then 105
      else if r = 8490 then 107
      else r)"

definition ToLower :: "rune list \<Rightarrow> rune list" where
  "ToLower s = map ToLower_rune s"

section \<open>Style markup parser (package draw)\<close>

definition tokenFg :: "rune list" where "tokenFg = runes ''fg''"
definition tokenBg :: "rune list" where "tokenBg = runes ''bg''"
definition tokenModifier :: "rune list" where "tokenModifier = runes ''mod''"

definition tokenItemSeparator :: rune where "tokenItemSeparator = 44"
definition tokenValueSeparator :: rune where "tokenValueSeparator = 58"
definition tokenBeginStyledText :: rune where "tokenBeginStyledText = 91"
definition tokenEndStyledText :: rune where "tokenEndStyledText = 93"
definition tokenBeginStyle :: rune where "tokenBeginStyle = 40"
definition tokenEndStyle :: rune where "tokenEndStyle = 41"

datatype ParserState = ParserStateDefault | ParserStateStyleItems | ParserStateStyledText

text \<open>
  \<^verbatim>\<open>ColorMap\<close> and \<^verbatim>\<open>ModifierMap\<close> with the entries they are initialised with
  (\<^verbatim>\<open>RegisterColor\<close> and \<^verbatim>\<open>RegisterModifier\<close>, which add entries, are not called by
  the parser).
\<close>

definition ColorMap :: "rune list \<rightharpoonup> Color" where
  "ColorMap = map_of
     [(runes ''red'', ColorRed), (runes ''blue'', ColorBlue), (runes ''black'', ColorBlack),
      (runes ''cyan'', ColorCyan), (runes ''yellow'', ColorYellow), (runes ''white'', ColorWhite),
      (runes ''clear'', ColorClear), (runes ''green'', ColorGreen),
      (runes ''magenta'', ColorMagenta)]"

definition ModifierMap :: "rune list \<rightharpoonup> nat" where
  "ModifierMap = map_of
     [(runes ''bold'', ModifierBold), (runes ''underline'', ModifierUnderline),
      (runes ''reverse'', ModifierReverse)]"

text \<open>
  \<^verbatim>\<open>parseStyleString\<close>: the body of its loop over the items is \<open>parseStyleItem\<close>. An
  item that does not split into exactly two parts at the colon is skipped; so is an
  unknown key; a name that is not in the table leaves the attribute as it is.
\<close>

definition parseStyleItem :: "Style \<Rightarrow> rune list \<Rightarrow> Style" where
  "parseStyleItem style item =
     (case Split (TrimSpace item) tokenValueSeparator of
        [k, v] \<Rightarrow>
          (let key = TrimSpace k; value = TrimSpace v
           in if key = tokenFg then
                (case ColorMap (ToLower value) of
                   Some color \<Rightarrow> style\<lparr>Fg := color\<rparr>
                 | None \<Rightarrow> style)
              else if key = tokenBg then
                (case ColorMap (ToLower value) of
                   Some color \<Rightarrow> style\<lparr>Bg := color\<rparr>
                 | None \<Rightarrow> style)
              else if key = tokenModifier then
                (case ModifierMap (ToLower value) of
                   Some modifier \<Rightarrow> style\<lparr>Modifier := modifier\<rparr>
                 | None \<Rightarrow> style)
              else style)
      | _ \<Rightarrow> style)"

definition parseStyleString :: "rune list \<Rightarrow> Style \<Rightarrow> Style" where
  "parseStyleString styleStr defaultStyle =
     fold (\<lambda>item style. parseStyleItem style item) (Split styleStr tokenItemSeparator)
       defaultStyle"

text \<open>The variables of \<^verbatim>\<open>ParseStyles\<close> that its closures and its loop share.\<close>

record parser =
  cells :: "Cell list"
  state :: ParserState
  styledText :: "rune list"
  styleItems :: "rune list"
  bracketDepth :: int

definition reset :: "parser \<Rightarrow> parser" where
  "reset p = p\<lparr>styledText := [], styleItems := [], state := ParserStateDefault, bracketDepth := 0\<rparr>"

definition runesToCells :: "rune list \<Rightarrow> Style \<Rightarrow> Cell list" where
  "runesToCells rs style = map (\<lambda>r. \<lparr>Rune = r, Style = style\<rparr>) rs"

definition rollback :: "Style \<Rightarrow> parser \<Rightarrow> parser" where
  "rollback defaultStyle p =
     (let p1 = (if 0 < length (styledText p)
                then p\<lparr>cells := cells p @ runesToCells (styledText p) defaultStyle\<rparr> else p);
          p2 = (if 0 < length (styleItems p1)
                then p1\<lparr>cells := cells p1 @ runesToCells (styleItems p1) defaultStyle\<rparr> else p1)
      in reset p2)"

text \<open>\<^verbatim>\<open>chop\<close>: \<^verbatim>\<open>r[1 : len(r)-1]\<close>, and \<open>r\<close> itself when it has fewer than two runes.\<close>

definition chop :: "rune list \<Rightarrow> rune list" where
  "chop r = (if length r < 2 then r else butlast (tl r))"

text \<open>
  One iteration of the main loop for the rune \<open>r\<close>; \<open>is_last\<close> is the loop's test
  \<^verbatim>\<open>i == len(runes)-1\<close>. The cases follow the source's order.
\<close>

definition parse_step :: "Style \<Rightarrow> bool \<Rightarrow> rune \<Rightarrow> parser \<Rightarrow> parser" where
  "parse_step defaultStyle is_last r p =
     (case state p of
        ParserStateDefault \<Rightarrow>
          (if r = tokenBeginStyledText
           then p\<lparr>state := ParserStateStyledText, bracketDepth := 1,
                   styledText := styledText p @ [r]\<rparr>
           else p\<lparr>cells := cells p @ [\<lparr>Rune = r, Style = defaultStyle\<rparr>]\<rparr>)
      | ParserStateStyledText \<Rightarrow>
          (if bracketDepth p = 0 then
             (if r = tokenBeginStyle
              then p\<lparr>state := ParserStateStyleItems, styleItems := styleItems p @ [r]\<rparr>
              else (let p' = rollback defaultStyle p
                    in if r = tokenBeginStyledText
                       then p'\<lparr>state := ParserStateStyledText, bracketDepth := 1,
                               styledText := styledText p' @ [r]\<rparr>
                       else p'\<lparr>cells := cells p' @ [\<lparr>Rune = r, Style = defaultStyle\<rparr>]\<rparr>))
           else if is_last then rollback defaultStyle p
           else if r = tokenBeginStyledText
           then p\<lparr>bracketDepth := int64 (bracketDepth p + 1), styledText := styledText p @ [r]\<rparr>
           else if r = tokenEndStyledText
           then p\<lparr>bracketDepth := int64 (bracketDepth p - 1), styledText := styledText p @ [r]\<rparr>
           else p\<lparr>styledText := styledText p @ [r]\<rparr>)
      | ParserStateStyleItems \<Rightarrow>
          (let p1 = p\<lparr>styleItems := styleItems p @ [r]\<rparr>
           in if r = tokenEndStyle
              then (let style = parseStyleString (chop (styleItems p1)) defaultStyle
                    in reset (p1\<lparr>cells := cells p1 @ runesToCells (chop (styledText p1)) style\<rparr>))
              else if is_last then rollback defaultStyle p1
              else p1))"

text \<open>
  The loop \<^verbatim>\<open>for i, r := range runes\<close>: the rune at the head of the remaining input
  is the last one exactly when nothing follows it.
\<close>

fun parse_loop :: "Style \<Rightarrow> parser \<Rightarrow> rune list \<Rightarrow> parser" where
  "parse_loop defaultStyle p [] = p"
| "parse_loop defaultStyle p (r # rs) =
     parse_loop defaultStyle (parse_step defaultStyle (rs = []) r p) rs"

definition parser_init :: parser where
  "parser_init =
     \<lparr>cells = [], state = ParserStateDefault, styledText = [], styleItems = [], bracketDepth = 0\<rparr>"

definition ParseStyles :: "rune list \<Rightarrow> Style \<Rightarrow> Cell list" where
  "ParseStyles s defaultStyle =
     (if s = [] then []
      else (let p = parse_loop defaultStyle parser_init s
            in cells (if state p \<noteq> ParserStateDefault then rollback defaultStyle p else p)))"

text \<open>
  Between two spans the parser is in its default state with both buffers empty.
\<close>

definition idle :: "parser \<Rightarrow> bool" where
  "idle p =
     (state p = ParserStateDefault \<and> styledText p = [] \<and> styleItems p = [] \<and> bracketDepth p = 0)"

section \<open>Style markup parser (package termui)\<close>






datatype go_panic = SliceBoundsOutOfRange | IndexOutOfRange | NonSliceType






section \<open>Well-formed markup\<close>








section \<open>Floating point, integer division and text width\<close>

text \<open>
  The widgets and the layout compute with \<^verbatim>\<open>float64\<close>. Its arithmetic is a parameter
  of the model: a record of the operations the code uses, over a type \<open>'f\<close> of values.
  \<open>f_of_int\<close> is the conversion \<^verbatim>\<open>float64(n)\<close> (also used for the literals \<^verbatim>\<open>0\<close>,
  \<^verbatim>\<open>1.0\<close> and \<^verbatim>\<open>2.0\<close>), \<open>f_to_int\<close> the conversion \<^verbatim>\<open>int(x)\<close>, \<open>f_gt\<close> and \<open>f_eq\<close>
  the comparisons \<^verbatim>\<open>>\<close> and \<^verbatim>\<open>==\<close>.
\<close>

record 'f float64_ops =
  f_of_int :: "int \<Rightarrow> 'f"
  f_to_int :: "'f \<Rightarrow> int"
  f_add :: "'f \<Rightarrow> 'f \<Rightarrow> 'f"
  f_mul :: "'f \<Rightarrow> 'f \<Rightarrow> 'f"
  f_div :: "'f \<Rightarrow> 'f \<Rightarrow> 'f"
  f_gt :: "'f \<Rightarrow> 'f \<Rightarrow> bool"
  f_eq :: "'f \<Rightarrow> 'f \<Rightarrow> bool"

text \<open>
  Exact arithmetic on the rationals, with \<^verbatim>\<open>int(x)\<close> truncating toward zero.
  \<^verbatim>\<open>float64\<close> computes the same values wherever the operands and the exact result are
  representable: for integers of magnitude up to \<open>2 ^ 53\<close> and their products with
  \<open>1/2\<close> and \<open>1/4\<close>, in particular.
\<close>

definition exact_ops :: "rat float64_ops" where
  "exact_ops =
     \<lparr>f_of_int = of_int,
      f_to_int = (\<lambda>x. if 0 \<le> x then \<lfloor>x\<rfloor> else \<lceil>x\<rceil>),
      f_add = (+), f_mul = (*), f_div = (/),
      f_gt = (\<lambda>a b. b < a), f_eq = (=)\<rparr>"









section \<open>Helpers of package utils\<close>

datatype error = EmptySlice





text \<open>
  \<^verbatim>\<open>GetMaxFloat64From2dSlice\<close> tests the outer slice for emptiness and then reads
  \<^verbatim>\<open>slices[0][0]\<close>, which panics when the first series is empty.
\<close>

definition GetMaxFloat64From2dSlice ::
    "'f float64_ops \<Rightarrow> 'f list list \<Rightarrow> go_panic + (error + 'f)" where
  "GetMaxFloat64From2dSlice ops slices =
     (case slices of
        [] \<Rightarrow> Inr (Inl EmptySlice)
      | s0 # _ \<Rightarrow>
          (case s0 of
             [] \<Rightarrow> Inl IndexOutOfRange
           | first # _ \<Rightarrow>
               Inr (Inr (fold (\<lambda>slice m. fold (\<lambda>val m'. if f_gt ops val m' then val else m') slice m)
                           slices first))))"

section \<open>Chart widgets\<close>

text \<open>
  Every widget embeds \<^verbatim>\<open>draw.Base\<close>. The \<^verbatim>\<open>Draw\<close> methods modelled here read its
  inner rectangle; what \<^verbatim>\<open>Base.Draw\<close> paints (background, border, title, focus) is the
  parameter \<open>Base_Draw\<close> of a widget's \<^verbatim>\<open>Draw\<close>.
\<close>

record Base =
  Inner :: Rectangle










text \<open>
  Of \<^verbatim>\<open>Plot\<close> the model has the data and the maximum. What \<^verbatim>\<open>Plot.Draw\<close> paints once it
  has a maximum that is not zero (the axes and the markers) is the parameter \<open>plot_body\<close>.
\<close>

record 'f Plot = Base +
  plot_Data :: "'f list list"
  plot_MaxVal :: 'f

definition Plot_Draw ::
    "'f float64_ops \<Rightarrow> (Buffer \<Rightarrow> Buffer) \<Rightarrow> ('f \<Rightarrow> Buffer \<Rightarrow> Buffer) \<Rightarrow> 'f Plot \<Rightarrow> Buffer \<Rightarrow>
     go_panic + Buffer" where
  "Plot_Draw ops Base_Draw plot_body p buf =
     (let buf0 = Base_Draw buf
      in if f_eq ops (plot_MaxVal p) (f_of_int ops 0)
         then (case GetMaxFloat64From2dSlice ops (plot_Data p) of
                 Inl e \<Rightarrow> Inl e
               | Inr (Inl err) \<Rightarrow> Inr buf0
               | Inr (Inr maxVal) \<Rightarrow>
                   if f_eq ops maxVal (f_of_int ops 0) then Inr buf0
                   else Inr (plot_body maxVal buf0))
         else Inr (plot_body (plot_MaxVal p) buf0))"

section \<open>Layout engine\<close>

datatype Alignment = AlignLeft | AlignCenter | AlignRight

datatype LayoutItemType = LayoutItemColumn | LayoutItemRow

datatype ('w, 'f) LayoutItem =
  LayoutItem (Type: LayoutItemType) (XRatio: 'f) (YRatio: 'f) (WidthRatio: 'f) (HeightRatio: 'f)
    (Entry: "('w, 'f) Entry") (IsLeaf: bool) (Ratio: 'f) (Align: Alignment)
and ('w, 'f) Entry =
  EntryDrawable 'w | EntrySlice "('w, 'f) Child list" | EntryOther
and ('w, 'f) Child =
  ChildItem "('w, 'f) LayoutItem" | ChildDrawable 'w | ChildNil | ChildOther

text \<open>
  The state of the loop of \<^verbatim>\<open>layoutHelper\<close> over the children: the container's width
  and height ratios, which the loop halves when row and column children are mixed, the
  running offsets and the two flags.
\<close>

record 'f children_loop =
  item_WidthRatio :: 'f
  item_HeightRatio :: 'f
  xRatio :: 'f
  yRatio :: 'f
  hasColumns :: bool
  hasRows :: bool

text \<open>
  \<^verbatim>\<open>layoutHelper\<close> appends the resolved leaves to \<^verbatim>\<open>l.Items\<close>; the model returns
  them in that order. \<open>layoutChildren\<close> is its loop over the children, \<open>n\<close> their number.
  An entry of a container that is not a slice makes \<^verbatim>\<open>interfaceSlice\<close> panic.
\<close>

fun layoutHelper ::
    "'f float64_ops \<Rightarrow> ('w, 'f) LayoutItem \<Rightarrow> 'f \<Rightarrow> 'f \<Rightarrow> 'f \<Rightarrow> 'f \<Rightarrow>
     go_panic + ('w, 'f) LayoutItem list"
and layoutChildren ::
    "'f float64_ops \<Rightarrow> LayoutItemType \<Rightarrow> 'f \<Rightarrow> 'f \<Rightarrow> int \<Rightarrow> 'f children_loop \<Rightarrow>
     ('w, 'f) Child list \<Rightarrow> go_panic + ('w, 'f) LayoutItem list"
where
  "layoutHelper ops (LayoutItem ty x y w h entry leaf ratio al)
       parentWidthRatio parentHeightRatio parentXRatio parentYRatio =
     (let heightRatio = (case ty of LayoutItemColumn \<Rightarrow> f_of_int ops 1 | LayoutItemRow \<Rightarrow> ratio);
          widthRatio = (case ty of LayoutItemColumn \<Rightarrow> ratio | LayoutItemRow \<Rightarrow> f_of_int ops 1);
          w' = f_mul ops parentWidthRatio widthRatio;
          h' = f_mul ops parentHeightRatio heightRatio
      in if leaf
         then Inr [LayoutItem ty parentXRatio parentYRatio w' h' entry leaf ratio al]
         else (case entry of
                 EntrySlice children \<Rightarrow>
                   layoutChildren ops ty parentXRatio parentYRatio (int (length children))
                     \<lparr>item_WidthRatio = w', item_HeightRatio = h',
                      xRatio = f_of_int ops 0, yRatio = f_of_int ops 0,
                      hasColumns = False, hasRows = False\<rparr>
                     children
               | _ \<Rightarrow> Inl NonSliceType))"
| "layoutChildren ops ty itemX itemY n st [] = Inr []"
| "layoutChildren ops ty itemX itemY n st (c # cs) =
     (case c of
        ChildNil \<Rightarrow> layoutChildren ops ty itemX itemY n st cs
      | ChildOther \<Rightarrow> layoutChildren ops ty itemX itemY n st cs
      | ChildDrawable drawable \<Rightarrow>
          (let leafItem =
                 LayoutItem ty
                   (f_add ops itemX (f_mul ops (xRatio st) (item_WidthRatio st)))
                   (f_add ops itemY (f_mul ops (yRatio st) (item_HeightRatio st)))
                   (f_div ops (item_WidthRatio st) (f_of_int ops n))
                   (f_div ops (item_HeightRatio st) (f_of_int ops n))
                   (EntryDrawable drawable) True
                   (f_div ops (f_of_int ops 1) (f_of_int ops n)) AlignLeft;
               st' = (if ty = LayoutItemColumn
                      then st\<lparr>xRatio := f_add ops (xRatio st) (Ratio leafItem)\<rparr>
                      else st\<lparr>yRatio := f_add ops (yRatio st) (Ratio leafItem)\<rparr>)
           in (case layoutChildren ops ty itemX itemY n st' cs of
                 Inl e \<Rightarrow> Inl e
               | Inr items \<Rightarrow> Inr (leafItem # items)))
      | ChildItem child \<Rightarrow>
          (let childX = f_add ops itemX (f_mul ops (item_WidthRatio st) (xRatio st));
               childY = f_add ops itemY (f_mul ops (item_HeightRatio st) (yRatio st));
               st' = (case Type child of
                        LayoutItemColumn \<Rightarrow>
                          (let st1 = st\<lparr>hasColumns := True,
                                         xRatio := f_add ops (xRatio st) (Ratio child)\<rparr>
                           in if hasRows st1
                              then st1\<lparr>item_HeightRatio :=
                                         f_div ops (item_HeightRatio st1) (f_of_int ops 2)\<rparr>
                              else st1)
                      | LayoutItemRow \<Rightarrow>
                          (let st1 = st\<lparr>hasRows := True,
                                         yRatio := f_add ops (yRatio st) (Ratio child)\<rparr>
                           in if hasColumns st1
                              then st1\<lparr>item_WidthRatio :=
                                         f_div ops (item_WidthRatio st1) (f_of_int ops 2)\<rparr>
                              else st1))
           in (case layoutHelper ops child (item_WidthRatio st') (item_HeightRatio st') childX childY of
                 Inl e \<Rightarrow> Inl e
               | Inr items \<Rightarrow>
                   (case layoutChildren ops ty itemX itemY n st' cs of
                      Inl e \<Rightarrow> Inl e
                    | Inr items' \<Rightarrow> Inr (items @ items')))))"









section \<open>Properties of the frame buffer\<close>

text \<open>
  Claim C9. \<^verbatim>\<open>Resize\<close> deletes exactly the cached points outside the new bounds: a
  point inside the new bounds keeps the cell it had (or stays absent), a point outside
  them is no longer cached, and the \<^verbatim>\<open>Bounds\<close> field becomes the new bounds. This
  holds for every new rectangle, smaller or not.
\<close>

theorem Resize_keeps_inside_drops_outside:
  "fmlookup (fb_CellMap (Resize fb bounds)) p =
     (if Point_In p bounds then fmlookup (fb_CellMap fb) p else None) \<and>
   Bounds (Resize fb bounds) = bounds"
  by (simp add: Resize_def)

lemma SetCell_lookup:
  "fmlookup (CellMap (SetCell b c q)) p = (if p = q then Some c else fmlookup (CellMap b) p)"
  by (simp add: SetCell_def)

lemma SetCell_Rectangle: "Rectangle (SetCell b c q) = Rectangle b"
  by (simp add: SetCell_def)

lemma SetCell_row_lookup:
  "fmlookup (CellMap (fold (\<lambda>y b'. SetCell b' c (Pt x y)) ys b)) p =
     (if X p = x \<and> Y p \<in> set ys then Some c else fmlookup (CellMap b) p)"
proof (induction ys arbitrary: b)
  case Nil
  then show ?case by simp
next
  case (Cons y ys)
  have "p = Pt x y \<longleftrightarrow> X p = x \<and> Y p = y"
    by (cases p) (simp add: Pt_def)
  then show ?case
    by (auto simp: Cons.IH SetCell_lookup)
qed

lemma SetCell_row_Rectangle:
  "Rectangle (fold (\<lambda>y b'. SetCell b' c (Pt x y)) ys b) = Rectangle b"
  by (induction ys arbitrary: b) (simp_all add: SetCell_Rectangle)

lemma SetCell_grid_lookup:
  "fmlookup (CellMap (fold (\<lambda>x b. fold (\<lambda>y b'. SetCell b' c (Pt x y)) ys b) xs buf)) p =
     (if X p \<in> set xs \<and> Y p \<in> set ys then Some c else fmlookup (CellMap buf) p)"
  by (induction xs arbitrary: buf) (auto simp: SetCell_row_lookup)

lemma SetCell_grid_Rectangle:
  "Rectangle (fold (\<lambda>x b. fold (\<lambda>y b'. SetCell b' c (Pt x y)) ys b) xs buf) = Rectangle buf"
  by (induction xs arbitrary: buf) (simp_all add: SetCell_row_Rectangle)

lemma Fill_lookup:
  "fmlookup (CellMap (Fill buf c rect)) p =
     (if Point_In p rect then Some c else fmlookup (CellMap buf) p)"
  unfolding Fill_def SetCell_grid_lookup Point_In_def by auto

lemma Fill_Rectangle: "Rectangle (Fill buf c rect) = Rectangle buf"
  unfolding Fill_def by (rule SetCell_grid_Rectangle)

lemma NewBuffer_lookup:
  "fmlookup (CellMap (NewBuffer r)) p = (if Point_In p r then Some CellClear else None)"
  by (simp add: NewBuffer_def Fill_lookup)

lemma NewBuffer_Rectangle: "Rectangle (NewBuffer r) = r"
  by (simp add: NewBuffer_def Fill_Rectangle)

lemma Update_lookup:
  "fmlookup (fb_CellMap (Update fb buf)) p =
     (if Point_In p (Rectangle buf)
      then (case fmlookup (CellMap buf) p of
              Some c \<Rightarrow> Some c
            | None \<Rightarrow> fmlookup (fb_CellMap fb) p)
      else if Point_In p (Bounds fb) then None
      else fmlookup (fb_CellMap fb) p)"
  by (auto simp: Update_def Let_def fmlookup_dom_iff split: option.splits)

text \<open>
  Claim C2, as the code has it. \<^verbatim>\<open>Update\<close> stores exactly the buffer's cells that lie
  inside the buffer's rectangle. The points it evicts are the cached points outside the
  buffer's rectangle and inside the frame buffer's \<^verbatim>\<open>Bounds\<close>. A cached point inside the
  rectangle that the buffer does not hold, and a cached point outside both the rectangle
  and the bounds, keep their cells; \<^verbatim>\<open>Bounds\<close> is unchanged.
\<close>

theorem Update_merges_and_evicts:
  "fmlookup (fb_CellMap (Update fb buf)) p =
     (if Point_In p (Rectangle buf)
      then (case fmlookup (CellMap buf) p of
              Some c \<Rightarrow> Some c
            | None \<Rightarrow> fmlookup (fb_CellMap fb) p)
      else if Point_In p (Bounds fb) then None
      else fmlookup (fb_CellMap fb) p) \<and>
   Bounds (Update fb buf) = Bounds fb"
  by (simp add: Update_lookup) (simp add: Update_def Let_def)

text \<open>
  Claim C2 as the specification words it fails: a point cached at (5, 5), outside the
  rectangle (0, 0)-(2, 2) of a fresh buffer and inside the bounds (0, 0)-(10, 10), does
  not keep its cell; \<^verbatim>\<open>Update\<close> evicts it.
\<close>

theorem Update_evicts_outside_rectangle:
  "\<not> Point_In (Pt 5 5) (Rectangle (NewBuffer \<lparr>Min_pt = Pt 0 0, Max_pt = Pt 2 2\<rparr>)) \<and>
   fmlookup (fb_CellMap \<lparr>fb_CellMap = fmupd (Pt 5 5) CellClear fmempty,
                         Bounds = \<lparr>Min_pt = Pt 0 0, Max_pt = Pt 10 10\<rparr>\<rparr>) (Pt 5 5) = Some CellClear \<and>
   fmlookup (fb_CellMap (Update \<lparr>fb_CellMap = fmupd (Pt 5 5) CellClear fmempty,
                                 Bounds = \<lparr>Min_pt = Pt 0 0, Max_pt = Pt 10 10\<rparr>\<rparr>
                           (NewBuffer \<lparr>Min_pt = Pt 0 0, Max_pt = Pt 2 2\<rparr>))) (Pt 5 5) = None"
  by (simp add: Update_lookup NewBuffer_Rectangle NewBuffer_lookup Point_In_def Pt_def)

lemma Diff_changed_after_Update: "fst (Diff (Update fb buf) buf) = fmempty"
proof (rule fmap_ext)
  fix p
  show "fmlookup (fst (Diff (Update fb buf) buf)) p = fmlookup fmempty p"
    by (auto simp: Diff_def Let_def Update_lookup cellsEqual_def split: option.splits)
qed

lemma Diff_removed_after_Update:
  "snd (Diff (Update fb buf) buf) =
     ffilter (\<lambda>p. Point_In p (Rectangle buf) \<and> p |\<notin>| fmdom (CellMap buf)) (fmdom (fb_CellMap fb))"
  apply (rule fset_eqI)
  apply (auto simp: Diff_def Let_def fmlookup_dom_iff Update_lookup split: option.splits if_splits)
  done

text \<open>
  Claim C3, as the code has it. When the buffer holds a cell at every point of its
  rectangle that the frame buffer has cached (every buffer made by \<^verbatim>\<open>NewBuffer\<close> does:
  it holds a cell at every point of its rectangle), \<^verbatim>\<open>Diff\<close> right after
  \<^verbatim>\<open>Update\<close> of the same buffer returns an empty changed map and no removed point.
\<close>

theorem Diff_after_Update_is_empty:
  assumes "\<forall>p. p |\<in>| fmdom (fb_CellMap fb) \<and> Point_In p (Rectangle buf) \<longrightarrow>
               p |\<in>| fmdom (CellMap buf)"
  shows "Diff (Update fb buf) buf = (fmempty, {||})"
proof -
  have "snd (Diff (Update fb buf) buf) = {||}"
    unfolding Diff_removed_after_Update using assms by auto
  then show ?thesis
    using Diff_changed_after_Update [of fb buf] by (simp add: prod_eq_iff)
qed

theorem Diff_after_Update_is_empty_witness:
  "Diff (Update \<lparr>fb_CellMap = fmupd (Pt 0 0) \<lparr>Rune = 65, Style = StyleClear\<rparr> fmempty,
                 Bounds = \<lparr>Min_pt = Pt 0 0, Max_pt = Pt 10 10\<rparr>\<rparr>
           (NewBuffer \<lparr>Min_pt = Pt 0 0, Max_pt = Pt 2 2\<rparr>))
     (NewBuffer \<lparr>Min_pt = Pt 0 0, Max_pt = Pt 2 2\<rparr>) = (fmempty, {||})"
  by (rule Diff_after_Update_is_empty)
     (simp add: fmlookup_dom_iff NewBuffer_lookup NewBuffer_Rectangle)

text \<open>
  Claim C3 as the specification words it, for every buffer, fails: a buffer with the
  rectangle (0, 0)-(1, 1) and no cell leaves the cached point (0, 0) in the cache, and
  the following \<^verbatim>\<open>Diff\<close> reports that point as removed.
\<close>

theorem Diff_after_Update_reports_removed:
  "Diff (Update \<lparr>fb_CellMap = fmupd (Pt 0 0) CellClear fmempty,
                 Bounds = \<lparr>Min_pt = Pt 0 0, Max_pt = Pt 10 10\<rparr>\<rparr>
           \<lparr>Rectangle = \<lparr>Min_pt = Pt 0 0, Max_pt = Pt 1 1\<rparr>, CellMap = fmempty\<rparr>)
     \<lparr>Rectangle = \<lparr>Min_pt = Pt 0 0, Max_pt = Pt 1 1\<rparr>, CellMap = fmempty\<rparr>
   = (fmempty, {|Pt 0 0|})"
  by (auto simp: prod_eq_iff Diff_changed_after_Update Diff_removed_after_Update
      Point_In_def Pt_def)

section \<open>Properties of the style markup parser\<close>

lemmas tokens = tokenBeginStyledText_def tokenEndStyledText_def tokenBeginStyle_def tokenEndStyle_def
  tokenItemSeparator_def tokenValueSeparator_def tokenFg_def tokenBg_def tokenModifier_def


lemma parse_loop_styledText:
  assumes "state p = ParserStateStyledText" and "bracketDepth p = 1"
    and "tokenBeginStyledText \<notin> set T" and "tokenEndStyledText \<notin> set T" and "rest \<noteq> []"
  shows "parse_loop d p (T @ rest) = parse_loop d (p\<lparr>styledText := styledText p @ T\<rparr>) rest"
  using assms
proof (induction T arbitrary: p)
  case Nil
  then show ?case by simp
next
  case (Cons r T)
  have step: "parse_step d False r p = p\<lparr>styledText := styledText p @ [r]\<rparr>"
    using Cons.prems by (simp add: parse_step_def)
  show ?case
    using Cons.prems by (simp add: step Cons.IH)
qed

lemma parse_loop_styleItems:
  assumes "state p = ParserStateStyleItems" and "tokenEndStyle \<notin> set S" and "rest \<noteq> []"
  shows "parse_loop d p (S @ rest) = parse_loop d (p\<lparr>styleItems := styleItems p @ S\<rparr>) rest"
  using assms
proof (induction S arbitrary: p)
  case Nil
  then show ?case by simp
next
  case (Cons r S)
  have step: "parse_step d False r p = p\<lparr>styleItems := styleItems p @ [r]\<rparr>"
    using Cons.prems by (simp add: parse_step_def Let_def)
  show ?case
    using Cons.prems by (simp add: step Cons.IH)
qed

lemma chop_enclosed: "chop (a # xs @ [b]) = xs"
  by (simp add: chop_def butlast_append)

lemma parse_loop_span:
  assumes "idle p"
    and "tokenBeginStyledText \<notin> set T" and "tokenEndStyledText \<notin> set T"
    and "tokenEndStyle \<notin> set S"
  shows "parse_loop d p
           (tokenBeginStyledText # T @ tokenEndStyledText # tokenBeginStyle # S @ tokenEndStyle # rest) =
         parse_loop d (p\<lparr>cells := cells p @ runesToCells T (parseStyleString S d)\<rparr>) rest"
proof -
  define p1 where
    "p1 = p\<lparr>state := ParserStateStyledText, bracketDepth := 1, styledText := [tokenBeginStyledText]\<rparr>"
  define p2 where "p2 = p1\<lparr>styledText := tokenBeginStyledText # T\<rparr>"
  define p3 where
    "p3 = p2\<lparr>bracketDepth := 0, styledText := tokenBeginStyledText # T @ [tokenEndStyledText]\<rparr>"
  define p4 where "p4 = p3\<lparr>state := ParserStateStyleItems, styleItems := [tokenBeginStyle]\<rparr>"
  define p5 where "p5 = p4\<lparr>styleItems := tokenBeginStyle # S\<rparr>"
  have 1: "parse_step d False tokenBeginStyledText p = p1"
    using assms(1) by (simp add: parse_step_def idle_def p1_def)
  have 2: "parse_loop d p1 (T @ tokenEndStyledText # tokenBeginStyle # S @ tokenEndStyle # rest) =
           parse_loop d p2 (tokenEndStyledText # tokenBeginStyle # S @ tokenEndStyle # rest)"
    using assms(2,3) by (subst parse_loop_styledText) (simp_all add: p1_def p2_def)
  have 3: "parse_step d False tokenEndStyledText p2 = p3"
    by (simp add: parse_step_def tokens int64_def p1_def p2_def p3_def)
  have 4: "parse_step d False tokenBeginStyle p3 = p4"
    using assms(1) by (simp add: parse_step_def idle_def p1_def p2_def p3_def p4_def)
  have 5: "parse_loop d p4 (S @ tokenEndStyle # rest) = parse_loop d p5 (tokenEndStyle # rest)"
    using assms(4) by (subst parse_loop_styleItems) (simp_all add: p4_def p5_def)
  have 6: "parse_step d b tokenEndStyle p5 =
           p\<lparr>cells := cells p @ runesToCells T (parseStyleString S d)\<rparr>" for b
    using assms(1)
    by (simp add: parse_step_def Let_def reset_def idle_def chop_enclosed
        chop_enclosed [of _ "[]", simplified] p1_def p2_def p3_def p4_def p5_def)
  show ?thesis
    by (simp add: 1 2 3 4 5 6)
qed

lemma parseStyleString_fg_red:
  "parseStyleString (runes ''fg:red'') d = d\<lparr>Fg := ColorRed\<rparr>"
  by (simp add: parseStyleString_def parseStyleItem_def runes_def tokens TrimSpace_def IsSpace_def
      ToLower_def ToLower_rune_def ColorMap_def Let_def)

text \<open>
  Claim C6. For every text \<open>T\<close> without square brackets and parentheses and every default
  style, \<^verbatim>\<open>ParseStyles\<close> turns \<^verbatim>\<open>[T](fg:red)\<close> into exactly one cell per rune of \<open>T\<close>,
  in order, each with the foreground red and the background and modifier of the default
  style.
\<close>

theorem ParseStyles_well_formed_red_span:
  assumes "\<forall>r \<in> set T. r \<noteq> tokenBeginStyledText \<and> r \<noteq> tokenEndStyledText \<and>
                        r \<noteq> tokenBeginStyle \<and> r \<noteq> tokenEndStyle"
  shows "ParseStyles (runes ''['' @ T @ runes ''](fg:red)'') d =
           map (\<lambda>r. \<lparr>Rune = r, Style = \<lparr>Fg = ColorRed, Bg = Bg d, Modifier = Modifier d\<rparr>\<rparr>) T"
proof -
  have T: "tokenBeginStyledText \<notin> set T" "tokenEndStyledText \<notin> set T"
    using assms by auto
  have S: "tokenEndStyle \<notin> set (runes ''fg:red'')"
    by (simp add: runes_def tokens)
  have shape: "runes ''['' @ T @ runes ''](fg:red)'' =
               tokenBeginStyledText # T @ tokenEndStyledText # tokenBeginStyle #
                 runes ''fg:red'' @ tokenEndStyle # []"
    by (simp add: runes_def tokens)
  have idle: "idle parser_init"
    by (simp add: idle_def parser_init_def)
  have "parse_loop d parser_init (runes ''['' @ T @ runes ''](fg:red)'') =
        parser_init\<lparr>cells := runesToCells T (d\<lparr>Fg := ColorRed\<rparr>)\<rparr>"
    unfolding shape parse_loop_span [OF idle T S]
    by (simp add: parseStyleString_fg_red parser_init_def)
  then show ?thesis
    by (simp add: ParseStyles_def Let_def runes_def parser_init_def runesToCells_def)
qed

theorem ParseStyles_well_formed_red_span_witness:
  "tokenBeginStyledText \<notin> set (runes ''Hi!'') \<and> tokenEndStyledText \<notin> set (runes ''Hi!'') \<and>
   tokenBeginStyle \<notin> set (runes ''Hi!'') \<and> tokenEndStyle \<notin> set (runes ''Hi!'') \<and>
   ParseStyles (runes ''[Hi!](fg:red)'') StyleClear =
     [\<lparr>Rune = 72, Style = \<lparr>Fg = ColorRed, Bg = ColorClear, Modifier = ModifierClear\<rparr>\<rparr>,
      \<lparr>Rune = 105, Style = \<lparr>Fg = ColorRed, Bg = ColorClear, Modifier = ModifierClear\<rparr>\<rparr>,
      \<lparr>Rune = 33, Style = \<lparr>Fg = ColorRed, Bg = ColorClear, Modifier = ModifierClear\<rparr>\<rparr>]"
  using ParseStyles_well_formed_red_span [of "runes ''Hi!''" StyleClear]
  by (simp add: runes_def tokens StyleClear_def)

text \<open>
  Claim C1 at the specification's own example. On \<^verbatim>\<open>[abc\<close> the parser of package
  draw returns three cells, for \<^verbatim>\<open>[ab\<close>: the branch for the last rune inside an open
  span rolls back the buffered runes and drops the rune it is looking at.
\<close>

theorem ParseStyles_unclosed_span_drops_last_rune:
  "ParseStyles (runes ''[abc'') d =
     [\<lparr>Rune = 91, Style = d\<rparr>, \<lparr>Rune = 97, Style = d\<rparr>, \<lparr>Rune = 98, Style = d\<rparr>] \<and>
   length (ParseStyles (runes ''[abc'') d) = 3 \<and> length (runes ''[abc'') = 4"
  by (simp add: ParseStyles_def runes_def parse_step_def rollback_def reset_def runesToCells_def
      parser_init_def tokens Let_def)

section \<open>The two parsers compared\<close>




















section \<open>Properties of the bar chart\<close>






















section \<open>Degenerate chart data\<close>

text \<open>
  Claim C4 at a plot whose data holds one empty series and whose maximum is left to be
  computed: \<^verbatim>\<open>Plot.Draw\<close> does not complete, \<^verbatim>\<open>GetMaxFloat64From2dSlice\<close> panics on
  \<^verbatim>\<open>slices[0][0]\<close>. With no series at all the same method returns after the base
  drawing, as the bar chart does on empty data.
\<close>

theorem Plot_Draw_empty_series_panics:
  "Plot_Draw exact_ops Base_Draw plot_body \<lparr>Inner = r, plot_Data = [[]], plot_MaxVal = 0\<rparr> buf =
     Inl IndexOutOfRange \<and>
   Plot_Draw exact_ops Base_Draw plot_body \<lparr>Inner = r, plot_Data = [], plot_MaxVal = 0\<rparr> buf =
     Inr (Base_Draw buf)"
  by (simp add: Plot_Draw_def GetMaxFloat64From2dSlice_def exact_ops_def)

section \<open>Properties of the layout engine\<close>







section \<open>Properties of scrolling\<close>

lemma int64_id: "is_int64 x \<Longrightarrow> int64 x = x"
  unfolding is_int64_def int64_def by (simp add: mod_pos_pos_trivial)

lemma scroll_clamp:
  assumes len: "0 < n" "n < 2 ^ 63"
    and sel: "0 \<le> s" "s \<le> n - 1"
    and amt: "is_int64 a"
  shows "0 \<le> (if int64 (n - s) \<le> a then int64 (n - 1)
               else if int64 (s + a) < 0 then 0 else int64 (s + a)) \<and>
         (if int64 (n - s) \<le> a then int64 (n - 1)
          else if int64 (s + a) < 0 then 0 else int64 (s + a)) \<le> n - 1"
proof -
  have d: "int64 (n - s) = n - s"
    using len sel by (intro int64_id) (simp add: is_int64_def)
  have l: "int64 (n - 1) = n - 1"
    using len by (intro int64_id) (simp add: is_int64_def)
  show ?thesis
  proof (cases "n - s \<le> a")
    case True
    then show ?thesis using d l len by simp
  next
    case False
    have "is_int64 (s + a)"
      using False len sel amt by (simp add: is_int64_def)
    then have "int64 (s + a) = s + a" by (rule int64_id)
    then show ?thesis using False d len by auto
  qed
qed

text \<open>
  Claim C10. For a List with at least one row and for a Tree with at least one flattened
  row, whose selected row is a valid index, \<^verbatim>\<open>ScrollAmount\<close> with any 64-bit amount
  leaves the selected row a valid index: between 0 and the length minus one.
\<close>

theorem ScrollAmount_keeps_selection_in_range:
  assumes "is_int64 amount"
  shows "(Rows l \<noteq> [] \<and> length (Rows l) < 2 ^ 63 \<and>
          0 \<le> SelectedRow l \<and> SelectedRow l \<le> int (length (Rows l)) - 1 \<longrightarrow>
            0 \<le> SelectedRow (List_ScrollAmount l amount) \<and>
            SelectedRow (List_ScrollAmount l amount) \<le> int (length (Rows l)) - 1) \<and>
         (rows t \<noteq> [] \<and> length (rows t) < 2 ^ 63 \<and>
          0 \<le> tree_SelectedRow t \<and> tree_SelectedRow t \<le> int (length (rows t)) - 1 \<longrightarrow>
            0 \<le> tree_SelectedRow (Tree_ScrollAmount t amount) \<and>
            tree_SelectedRow (Tree_ScrollAmount t amount) \<le> int (length (rows t)) - 1)"
proof (intro conjI impI)
  assume h: "Rows l \<noteq> [] \<and> length (Rows l) < 2 ^ 63 \<and>
             0 \<le> SelectedRow l \<and> SelectedRow l \<le> int (length (Rows l)) - 1"
  then have n: "0 < int (length (Rows l))" "int (length (Rows l)) < 2 ^ 63"
    by simp_all
  from scroll_clamp [OF n _ _ assms, of "SelectedRow l"] h
  show "0 \<le> SelectedRow (List_ScrollAmount l amount)"
    and "SelectedRow (List_ScrollAmount l amount) \<le> int (length (Rows l)) - 1"
    by (simp_all add: List_ScrollAmount_def split: if_splits)
next
  assume h: "rows t \<noteq> [] \<and> length (rows t) < 2 ^ 63 \<and>
             0 \<le> tree_SelectedRow t \<and> tree_SelectedRow t \<le> int (length (rows t)) - 1"
  then have n: "0 < int (length (rows t))" "int (length (rows t)) < 2 ^ 63"
    by simp_all
  from scroll_clamp [OF n _ _ assms, of "tree_SelectedRow t"] h
  show "0 \<le> tree_SelectedRow (Tree_ScrollAmount t amount)"
    and "tree_SelectedRow (Tree_ScrollAmount t amount) \<le> int (length (rows t)) - 1"
    by (simp_all add: Tree_ScrollAmount_def split: if_splits)
qed

theorem ScrollAmount_keeps_selection_in_range_witness:
  "is_int64 (- 5) \<and>
   0 \<le> SelectedRow (List_ScrollAmount \<lparr>Rows = [[97], [98], [99]], SelectedRow = 1, topRow = 0\<rparr> (- 5)) \<and>
   SelectedRow (List_ScrollAmount \<lparr>Rows = [[97], [98], [99]], SelectedRow = 1, topRow = 0\<rparr> (- 5)) \<le> 2 \<and>
   0 \<le> tree_SelectedRow (Tree_ScrollAmount
          \<lparr>tree_SelectedRow = 0, nodes = [TreeNode [97] False [] 0],
           rows = [TreeNode [97] False [] 0], tree_topRow = 0\<rparr> (- 5)) \<and>
   tree_SelectedRow (Tree_ScrollAmount
          \<lparr>tree_SelectedRow = 0, nodes = [TreeNode [97] False [] 0],
           rows = [TreeNode [97] False [] 0], tree_topRow = 0\<rparr> (- 5)) \<le> 0"
  using ScrollAmount_keeps_selection_in_range
    [of "- 5" "\<lparr>Rows = [[97], [98], [99]], SelectedRow = 1, topRow = 0\<rparr>"
        "\<lparr>tree_SelectedRow = 0, nodes = [TreeNode [97] False [] 0],
           rows = [TreeNode [97] False [] 0], tree_topRow = 0\<rparr>"]
  by (simp add: is_int64_def)

end
